theory Spec2Isabelle
  imports Main
begin

section \<open>JavaScript values and the library calls of the components\<close>

text \<open>
  The data the components hold and exchange with the conversion service is JSON. A value
  is \<open>undefined\<close>, \<open>null\<close>, a string, an array or an object; an object is the list of
  its own properties in the order \<open>Object.entries\<close> enumerates them. Numbers and booleans
  do not occur in the data the properties below are about and are not represented.
\<close>

datatype jsval =
    Undefined
  | Null
  | Str string
  | Arr "jsval list"
  | Obj "(string \<times> jsval) list"

text \<open>\<open>lodash/clone\<close> makes a shallow copy; on immutable values the copy is the value.\<close>

definition clone :: "'a \<Rightarrow> 'a" where
  "clone x = x"

text \<open>
  \<open>Array.prototype.join\<close> with the default separator, on an array whose elements are
  already strings: this is what \<open>array + ''\<close> computes.
\<close>

fun join :: "string list \<Rightarrow> string" where
  "join [] = []"
| "join [x] = x"
| "join (x # y # ys) = x @ '','' @ join (y # ys)"

text \<open>
  \<open>baseToString\<close> of lodash: a string is returned as it is, an array is converted
  element by element and the results are joined, any other value is \<open>value + ''\<close>.
\<close>

fun baseToString :: "jsval \<Rightarrow> string" where
  "baseToString (Str s) = s"
| "baseToString (Arr vs) = join (map baseToString vs)"
| "baseToString Undefined = ''undefined''"
| "baseToString Null = ''null''"
| "baseToString (Obj kvs) = ''[object Object]''"

text \<open>\<open>toString\<close> of lodash: \<open>value == null ? '' : baseToString(value)\<close>.\<close>

fun toString :: "jsval \<Rightarrow> string" where
  "toString Undefined = []"
| "toString Null = []"
| "toString v = baseToString v"

text \<open>
  \<open>String.prototype.split(separator, limit)\<close> for a separator of one character:
  \<open>pieces\<close> cuts the string at every occurrence of the separator (the empty string
  gives one empty piece), and at most \<open>limit\<close> pieces are returned.
\<close>

fun pieces :: "char \<Rightarrow> string \<Rightarrow> string list" where
  "pieces sep [] = [[]]"
| "pieces sep (c # cs) =
     (if c = sep then [] # pieces sep cs
      else (let ps = pieces sep cs in (c # hd ps) # tl ps))"

definition String_split :: "string \<Rightarrow> char \<Rightarrow> nat \<Rightarrow> string list" where
  "String_split s separator limit = take limit (pieces separator s)"

definition MAX_ARRAY_LENGTH :: nat where
  "MAX_ARRAY_LENGTH = 4294967295"

text \<open>
  \<open>lodash/split(string, separator)\<close> called without a limit: the limit becomes
  \<open>MAX_ARRAY_LENGTH\<close>, the first argument is converted with \<open>toString\<close>, and the
  native \<open>split\<close> does the rest. The only call passes the separator \<open>','\<close>.
\<close>

definition split_lodash :: "jsval \<Rightarrow> char \<Rightarrow> string list" where
  "split_lodash string separator =
     String_split (toString string) separator MAX_ARRAY_LENGTH"

section \<open>The grammar renderer of NfaToRegularGrammar\<close>

text \<open>
  The elements \<open>renderGrammar\<close> returns: a \<open>div\<close> with its class name and children, and
  a \<open>p\<close> with its text.
\<close>

datatype element =
    P string
  | Div string "element list"

text \<open>
  \<open>renderGrammar(resultingGrammar)\<close> maps over \<open>Object.entries(resultingGrammar)\<close>; the
  argument of the model is that list of entries. For the entry \<open>[key, val]\<close> the
  source takes \<open>initial = grammarItems[0]\<close>, copies the entry and shifts the key off,
  which leaves the array \<open>[val]\<close>, and splits that array at the commas.
\<close>

definition renderGrammar :: "(string \<times> jsval) list \<Rightarrow> element list" where
  "renderGrammar resultingGrammar =
     map (\<lambda>(key, val).
       let grammarItems = [Str key, val];
           initial = key;
           rules = tl (clone grammarItems);
           rules = split_lodash (Arr rules) CHR '',''
       in Div ''grammar-section''
            (map (\<lambda>rule. P (initial @ '' -> '' @ rule)) rules))
       resultingGrammar"

text \<open>The display lines of a rendering: the texts of its \<open>p\<close> elements, in document order.\<close>

fun texts :: "element \<Rightarrow> string list" where
  "texts (P s) = [s]"
| "texts (Div c es) = concat (map texts es)"

definition rendered_lines :: "element list \<Rightarrow> string list" where
  "rendered_lines es = concat (map texts es)"

text \<open>
  A GrammarResult as the specification describes it: for each state, in order, the
  ordered list of its right-hand sides. \<open>grammar_object\<close> is the JavaScript object (its
  entries) that carries it, and \<open>rule_lines\<close> is one \<open>LHS -> RHS\<close> line for each
  right-hand side, in the order of the states and of the rules of each state.
\<close>

type_synonym GrammarResult = "(string \<times> string list) list"

definition grammar_object :: "GrammarResult \<Rightarrow> (string \<times> jsval) list" where
  "grammar_object g = map (\<lambda>(lhs, rhss). (lhs, Arr (map Str rhss))) g"

definition rule_lines :: "GrammarResult \<Rightarrow> string list" where
  "rule_lines g = concat (map (\<lambda>(lhs, rhss). map (\<lambda>rhs. lhs @ '' -> '' @ rhs) rhss) g)"

text \<open>
  The grammar results on which joining and splitting gives the rules back: every state
  has at least one right-hand side, no right-hand side contains a comma, and, as for
  every array of JavaScript, no list is longer than \<open>MAX_ARRAY_LENGTH\<close>.
\<close>

definition comma_free :: "GrammarResult \<Rightarrow> bool" where
  "comma_free g \<longleftrightarrow>
     list_all (\<lambda>(lhs, rhss).
         rhss \<noteq> [] \<and> length rhss \<le> MAX_ARRAY_LENGTH \<and>
         list_all (\<lambda>rhs. CHR '','' \<notin> set rhs) rhss) g"

text \<open>The comma-join and the comma-split of JavaScript: \<open>xs.join(',')\<close> and \<open>s.split(',')\<close>.\<close>

definition comma_join :: "string list \<Rightarrow> string" where
  "comma_join xs = join xs"

definition comma_split :: "string \<Rightarrow> string list" where
  "comma_split s = String_split s CHR '','' MAX_ARRAY_LENGTH"

section \<open>Component state\<close>

text \<open>
  Both components keep the five fields of an automaton in their state, build an object
  with the same five fields for the service or for the graph, and hold a \<open>graphInput\<close>
  that is \<open>null\<close> (\<open>None\<close>) until a graph has been made. One record with the types of
  the fields left open serves all these objects. The methods keep their names without
  the leading underscore; those that both components have start with \<open>ui_\<close> for
  \<open>UiContainer\<close> and with \<open>nfa_\<close> for \<open>NfaToRegularGrammar\<close>.
\<close>

record ('a, 'i, 't) automaton =
  alphabet :: 'a
  states :: 'a
  initial :: 'i
  finals :: 'a
  transitionMap :: 't

record ('a, 'i, 't, 'g) component = "('a, 'i, 't) automaton" +
  graphInput :: "'g option"

text \<open>\<open>xs[0]\<close> of JavaScript: \<open>undefined\<close> (\<open>None\<close>) on the empty array.\<close>

fun first :: "'a list \<Rightarrow> 'a option" where
  "first [] = None"
| "first (x # xs) = Some x"

subsection \<open>UiContainer\<close>

text \<open>
  The state of \<open>UiContainer\<close>: four tag lists (of any element type: the constructor
  puts numbers there, the tag editor strings), the text of the transition map, and the
  graph input, whose \<open>initial\<close> is one element and whose transition map is parsed JSON.
\<close>

type_synonym 'a graph_input = "('a list, 'a option, jsval) automaton"

type_synonym 'a ui_state = "('a list, 'a list, string, 'a graph_input) component"

text \<open>\<open>JSON.parse\<close> either returns a value or throws a \<open>SyntaxError\<close>.\<close>

datatype exception = SyntaxError

text \<open>
  \<open>_generateGraphInput(state)\<close> of \<open>UiContainer\<close>. \<open>JSON.parse\<close> is a parameter:
  \<open>None\<close> is the text on which it throws.
\<close>

definition ui_generateGraphInput ::
    "(string \<Rightarrow> jsval option) \<Rightarrow> 'a ui_state \<Rightarrow> exception + 'a graph_input" where
  "ui_generateGraphInput JSON_parse state =
     (case JSON_parse (transitionMap state) of
        None \<Rightarrow> Inl SyntaxError
      | Some parsed \<Rightarrow> Inr \<lparr>
          alphabet = clone (alphabet state),
          states = clone (states state),
          initial = first (clone (initial state)),
          finals = clone (finals state),
          transitionMap = parsed\<rparr>)"

definition ui_handleAlphabetChange :: "'a list \<Rightarrow> 'a ui_state \<Rightarrow> 'a ui_state" where
  "ui_handleAlphabetChange alphabet' st = st\<lparr>alphabet := alphabet'\<rparr>"

definition ui_handleStatesChange :: "'a list \<Rightarrow> 'a ui_state \<Rightarrow> 'a ui_state" where
  "ui_handleStatesChange states' st = st\<lparr>states := states'\<rparr>"

definition ui_handleInitialChange :: "'a list \<Rightarrow> 'a ui_state \<Rightarrow> 'a ui_state" where
  "ui_handleInitialChange initial' st = st\<lparr>initial := initial'\<rparr>"

definition ui_handleFinalsChange :: "'a list \<Rightarrow> 'a ui_state \<Rightarrow> 'a ui_state" where
  "ui_handleFinalsChange finals' st = st\<lparr>finals := finals'\<rparr>"

text \<open>The argument is \<open>event.target.value\<close>, the text of the textarea.\<close>

definition ui_handleTransitionMapChange :: "string \<Rightarrow> 'a ui_state \<Rightarrow> 'a ui_state" where
  "ui_handleTransitionMapChange target_value st = st\<lparr>transitionMap := target_value\<rparr>"

text \<open>
  The click handler of the Visualize button: when \<open>_generateGraphInput\<close> throws, the
  handler ends there and \<open>setState\<close> is not reached.
\<close>

definition ui_visualize ::
    "(string \<Rightarrow> jsval option) \<Rightarrow> 'a ui_state \<Rightarrow> exception + 'a ui_state" where
  "ui_visualize JSON_parse st =
     (case ui_generateGraphInput JSON_parse st of
        Inl e \<Rightarrow> Inl e
      | Inr generatedOut \<Rightarrow> Inr (st\<lparr>graphInput := Some generatedOut\<rparr>))"

subsection \<open>NfaToRegularGrammar\<close>

type_synonym request = "(string list, string option, jsval) automaton"

type_synonym dfa_data = "(jsval, jsval, jsval) automaton"

text \<open>The object \<open>stateToSet\<close> that the completion of the DFA request builds.\<close>

record stateToSet =
  resultingTransitionMap :: jsval
  resultingStates :: jsval
  resultingInitial :: jsval
  resultingFinals :: jsval
  resultingAlphabet :: jsval

record nfa_state = "(string list, string list, jsval, dfa_data) component" +
  isModalOpen :: bool
  resultingAlphabet :: jsval
  resultingStates :: jsval
  resultingInitial :: jsval
  resultingFinals :: jsval
  resultingTransitionMap :: jsval
  resultingGrammar :: jsval
  loading :: bool

definition nfa_constructor :: nfa_state where
  "nfa_constructor = \<lparr>
     alphabet = [''a'', ''b''],
     states = [''Q'', ''W'', ''E''],
     initial = [''Q''],
     finals = [''W''],
     transitionMap = Obj [],
     graphInput = None,
     isModalOpen = False,
     resultingAlphabet = Null,
     resultingStates = Null,
     resultingInitial = Null,
     resultingFinals = Null,
     resultingTransitionMap = Null,
     resultingGrammar = Null,
     loading = False\<rparr>"

definition isResultPresent :: "nfa_state \<Rightarrow> bool" where
  "isResultPresent st = list_all (\<lambda>field. field \<noteq> Null) [resultingGrammar st]"

definition nfa_generateRequestBody :: "nfa_state \<Rightarrow> request" where
  "nfa_generateRequestBody input = \<lparr>
     alphabet = clone (alphabet input),
     states = clone (states input),
     initial = first (clone (initial input)),
     finals = clone (finals input),
     transitionMap = clone (transitionMap input)\<rparr>"

definition nfa_generateGraphInput :: "stateToSet \<Rightarrow> dfa_data" where
  "nfa_generateGraphInput input = \<lparr>
     alphabet = clone (stateToSet.resultingAlphabet input),
     states = clone (stateToSet.resultingStates input),
     initial = clone (stateToSet.resultingInitial input),
     finals = clone (stateToSet.resultingFinals input),
     transitionMap = clone (stateToSet.resultingTransitionMap input)\<rparr>"

definition nfa_handleAlphabetChange :: "string list \<Rightarrow> nfa_state \<Rightarrow> nfa_state" where
  "nfa_handleAlphabetChange alphabet' st = st\<lparr>alphabet := alphabet'\<rparr>"

definition nfa_handleStatesChange :: "string list \<Rightarrow> nfa_state \<Rightarrow> nfa_state" where
  "nfa_handleStatesChange states' st = st\<lparr>states := states'\<rparr>"

definition nfa_handleInitialChange :: "string list \<Rightarrow> nfa_state \<Rightarrow> nfa_state" where
  "nfa_handleInitialChange initial' st = st\<lparr>initial := initial'\<rparr>"

definition nfa_handleFinalsChange :: "string list \<Rightarrow> nfa_state \<Rightarrow> nfa_state" where
  "nfa_handleFinalsChange finals' st = st\<lparr>finals := finals'\<rparr>"

definition nfa_handleTransitionMapChange :: "jsval \<Rightarrow> nfa_state \<Rightarrow> nfa_state" where
  "nfa_handleTransitionMapChange parsedMap st = st\<lparr>transitionMap := parsedMap\<rparr>"

definition closeModal :: "nfa_state \<Rightarrow> nfa_state" where
  "closeModal st = st\<lparr>isModalOpen := False\<rparr>"

definition openModal :: "nfa_state \<Rightarrow> nfa_state" where
  "openModal st = st\<lparr>isModalOpen := True\<rparr>"

subsection \<open>The conversion round trips\<close>

text \<open>
  What \<open>_convertToRegularGrammar\<close> and the callbacks of its two requests act on: the
  state of the component, the alerts shown so far, the requests posted so far, and
  whether the component is still mounted. A
  response carries its \<open>data\<close>, which the service sends as an object; a rejection
  carries the error, as the text that \<open>'...' + error\<close> appends.
\<close>

datatype endpoint = nfaToDfaApi | nfaToGrammarApi

record world =
  state :: nfa_state
  alerts :: "string list"
  posts :: "(endpoint \<times> request) list"
  mounted :: bool

record grammar_data =
  result :: jsval

record 'd response =
  data :: 'd

definition alert :: "string \<Rightarrow> world \<Rightarrow> world" where
  "alert message w = w\<lparr>alerts := alerts w @ [message]\<rparr>"

definition convertToRegularGrammar :: "world \<Rightarrow> world" where
  "convertToRegularGrammar w =
     (let request = nfa_generateRequestBody (state w)
      in w\<lparr>state := (state w)\<lparr>loading := True\<rparr>,
           posts := posts w @ [(nfaToDfaApi, request), (nfaToGrammarApi, request)]\<rparr>)"

text \<open>
  The decimal numeral of an array index, and \<open>Object.entries\<close>: the own properties of an
  object, the indexed elements of an array, the indexed characters of a string, and a
  \<open>TypeError\<close> on \<open>undefined\<close> and on \<open>null\<close>.
\<close>

fun decimal :: "nat \<Rightarrow> string" where
  "decimal n =
     (if n < 10 then [''0123456789'' ! n]
      else decimal (n div 10) @ [''0123456789'' ! (n mod 10)])"

declare decimal.simps [simp del]

definition indexed :: "jsval list \<Rightarrow> (string \<times> jsval) list" where
  "indexed vs = zip (map decimal [0..<length vs]) vs"

datatype render_error = TypeError

fun Object_entries :: "jsval \<Rightarrow> render_error + (string \<times> jsval) list" where
  "Object_entries Undefined = Inl TypeError"
| "Object_entries Null = Inl TypeError"
| "Object_entries (Obj kvs) = Inr kvs"
| "Object_entries (Arr vs) = Inr (indexed vs)"
| "Object_entries (Str s) = Inr (indexed (map (\<lambda>c. Str [c]) s))"

text \<open>The text that \<open>'...' + error\<close> appends for the error; the message is that of V8.\<close>

fun error_text :: "render_error \<Rightarrow> string" where
  "error_text TypeError = ''TypeError: Cannot convert undefined or null to object''"

text \<open>
  The part of \<open>render\<close> that the source files decide, the rendering of the grammar:
  \<open>this.isResultPresent() && this.renderGrammar(this.state.resultingGrammar)\<close>. A result
  that is \<open>undefined\<close> counts as present, and \<open>renderGrammar\<close> throws on it. The graph is
  drawn by \<open>converter\<close> and by \<open>Graph\<close>, which are not among the source files; what they
  do with a graph input is not modelled.
\<close>

definition render :: "nfa_state \<Rightarrow> render_error + element list option" where
  "render st =
     (if isResultPresent st
      then (case Object_entries (resultingGrammar st) of
              Inl e \<Rightarrow> Inl e
            | Inr entries \<Rightarrow> Inr (Some (renderGrammar entries)))
      else Inr None)"


text \<open>
  \<open>component.setState\<close> in the callback of a request, with the state that the merge
  gives. Outside an event handler React renders at once: when \<open>render\<close> throws, the
  component is unmounted and the error leaves \<open>setState\<close>. On a component that is no
  longer mounted \<open>setState\<close> does nothing. The result is the world after the call and
  the error thrown, if any.
\<close>

definition setState :: "nfa_state \<Rightarrow> world \<Rightarrow> world \<times> render_error option" where
  "setState st' w =
     (if \<not> mounted w then (w, None)
      else (case render st' of
              Inl e \<Rightarrow> (w\<lparr>state := st', mounted := False\<rparr>, Some e)
            | Inr page \<Rightarrow> (w\<lparr>state := st'\<rparr>, None)))"

definition nfaToDfa_then :: "dfa_data response \<Rightarrow> world \<Rightarrow> world \<times> render_error option" where
  "nfaToDfa_then response w =
     (let stateToSet = \<lparr>
            stateToSet.resultingTransitionMap = transitionMap (data response),
            stateToSet.resultingStates = states (data response),
            stateToSet.resultingInitial = initial (data response),
            stateToSet.resultingFinals = finals (data response),
            stateToSet.resultingAlphabet = alphabet (data response)\<rparr>
      in setState ((state w)\<lparr>
           resultingTransitionMap := stateToSet.resultingTransitionMap stateToSet,
           resultingStates := stateToSet.resultingStates stateToSet,
           resultingInitial := stateToSet.resultingInitial stateToSet,
           resultingFinals := stateToSet.resultingFinals stateToSet,
           resultingAlphabet := stateToSet.resultingAlphabet stateToSet,
           graphInput := Some (nfa_generateGraphInput stateToSet),
           loading := False\<rparr>) w)"

definition nfaToDfa_catch :: "string \<Rightarrow> world \<Rightarrow> world" where
  "nfaToDfa_catch error w = alert (''Error while fetchin data!'' @ error) w"

definition nfaToGrammar_then ::
    "grammar_data response \<Rightarrow> world \<Rightarrow> world \<times> render_error option" where
  "nfaToGrammar_then response w =
     setState ((state w)\<lparr>
        resultingGrammar := result (data response),
        loading := False\<rparr>) w"

definition nfaToGrammar_catch :: "string \<Rightarrow> world \<Rightarrow> world" where
  "nfaToGrammar_catch error w = alert (''Error while fetchin data!'' @ error) w"

text \<open>
  The completion of a request is an event of its own; the two requests of one
  conversion complete in either order. The \<open>catch\<close> of a request is chained after its
  \<open>then\<close>: it runs when the request is rejected and also when the \<open>then\<close> callback
  throws.
\<close>

datatype completion =
    DfaResolved "dfa_data response"
  | DfaRejected string
  | GrammarResolved "grammar_data response"
  | GrammarRejected string

fun complete :: "completion \<Rightarrow> world \<Rightarrow> world" where
  "complete (DfaResolved response) w =
     (case nfaToDfa_then response w of
        (w', None) \<Rightarrow> w'
      | (w', Some error) \<Rightarrow> nfaToDfa_catch (error_text error) w')"
| "complete (DfaRejected error) w = nfaToDfa_catch error w"
| "complete (GrammarResolved response) w =
     (case nfaToGrammar_then response w of
        (w', None) \<Rightarrow> w'
      | (w', Some error) \<Rightarrow> nfaToGrammar_catch (error_text error) w')"
| "complete (GrammarRejected error) w = nfaToGrammar_catch error w"

fun completions :: "completion list \<Rightarrow> world \<Rightarrow> world" where
  "completions [] w = w"
| "completions (c # cs) w = completions cs (complete c w)"

text \<open>
  What the user sees of a conversion under way: the page shows the spinner exactly
  while \<open>loading\<close> is set.
\<close>

datatype phase = Idle | Submitting

definition phase :: "nfa_state \<Rightarrow> phase" where
  "phase st = (if loading st then Submitting else Idle)"

section \<open>Automaton specifications and their graph projection\<close>

text \<open>
  The graph that both components draw is made by \<open>converter\<close>, which they import from
  \<open>utils/transform-from-dfa-to-graph\<close>; that file is not among the source files. The
  definitions of this section follow the specification instead: the data model of its
  section 3 and the algorithm of its section 4.2.
\<close>

type_synonym transitions = "(string \<times> (string \<times> string list) list) list"

type_synonym AutomatonSpec = "(string list, string, transitions) automaton"

text \<open>
  Modelled from the spec: the invariants of an AutomatonSpec (no function of the source
  files checks them). The states are non-empty and unique, the initial state and the final
  states are states, and the transition map, a nested mapping from a state and a symbol
  to destination states, names only declared states and symbols.
\<close>

definition valid :: "AutomatonSpec \<Rightarrow> bool" where
  "valid spec \<longleftrightarrow>
     states spec \<noteq> [] \<and>
     distinct (states spec) \<and>
     initial spec \<in> set (states spec) \<and>
     set (finals spec) \<subseteq> set (states spec) \<and>
     list_all (\<lambda>(q, row).
         q \<in> set (states spec) \<and>
         list_all (\<lambda>(a, dests).
             a \<in> set (alphabet spec) \<and> set dests \<subseteq> set (states spec)) row)
       (transitionMap spec)"

datatype style = StyleInitial | StyleFinal

record node =
  node_id :: string
  node_label :: string
  styleHint :: "style list"

record edge =
  edge_from :: string
  edge_to :: string
  edge_label :: string

record GraphProjection =
  nodes :: "node list"
  edges :: "edge list"

text \<open>
  Modelled from the spec: the nodes of \<open>project\<close> (the repository's \<open>converter\<close>, which is
  not among the source files). One node for each state, styled initial if it is the
  initial state and final if it is among the final states; a state may be both, and a
  state that is neither has no style. The specification does not say what the label is;
  it is the state here.
\<close>

definition project_nodes :: "AutomatonSpec \<Rightarrow> node list" where
  "project_nodes spec =
     map (\<lambda>q. \<lparr>
         node_id = q,
         node_label = q,
         styleHint = (if q = initial spec then [StyleInitial] else []) @
                     (if q \<in> set (finals spec) then [StyleFinal] else [])\<rparr>)
       (states spec)"

text \<open>
  Modelled from the spec: the edges of \<open>project\<close>. Every entry of the transition map
  emits one edge for each destination; then the edges with the same origin and
  destination are merged into the first of them, their labels concatenated with a comma
  in the order the symbols were seen.
\<close>

definition emit_edges :: "transitions \<Rightarrow> edge list" where
  "emit_edges tm =
     concat (map (\<lambda>(q, row).
       concat (map (\<lambda>(a, dests).
         map (\<lambda>d. \<lparr>edge_from = q, edge_to = d, edge_label = a\<rparr>) dests) row)) tm)"

fun merge_edge :: "edge \<Rightarrow> edge list \<Rightarrow> edge list" where
  "merge_edge e [] = [e]"
| "merge_edge e (x # xs) =
     (if edge_from x = edge_from e \<and> edge_to x = edge_to e
      then x\<lparr>edge_label := edge_label x @ '','' @ edge_label e\<rparr> # xs
      else x # merge_edge e xs)"

definition merge_edges :: "edge list \<Rightarrow> edge list" where
  "merge_edges es = foldl (\<lambda>merged e. merge_edge e merged) [] es"

text \<open>Modelled from the spec: \<open>project\<close>, the nodes and the merged edges together.\<close>

definition project :: "AutomatonSpec \<Rightarrow> GraphProjection" where
  "project spec = \<lparr>
     nodes = project_nodes spec,
     edges = merge_edges (emit_edges (transitionMap spec))\<rparr>"

text \<open>The origin and the destination of an edge, the pair that merging goes by.\<close>

definition endpoints :: "edge \<Rightarrow> string \<times> string" where
  "endpoints e = (edge_from e, edge_to e)"

section \<open>Splitting and joining\<close>

text \<open>
  Splitting never returns the empty list, a string without the separator is one piece,
  and a separator between two strings separates their pieces.
\<close>

lemma pieces_nonempty: "pieces c s \<noteq> []"
  by (induction s) (auto simp: Let_def)

lemma pieces_no_sep: "c \<notin> set s \<Longrightarrow> pieces c s = [s]"
  by (induction s) (auto simp: Let_def)

lemma pieces_append_sep: "pieces c (s @ c # t) = pieces c s @ pieces c t"
  by (induction s) (auto simp: Let_def pieces_nonempty)

lemma pieces_sep_length: "c \<in> set s \<Longrightarrow> 2 \<le> length (pieces c s)"
  by (induction s) (auto simp: Let_def pieces_nonempty Suc_le_eq)

text \<open>No piece contains the separator.\<close>

lemma pieces_free: "p \<in> set (pieces c s) \<Longrightarrow> c \<notin> set p"
proof (induction s arbitrary: p)
  case Nil
  then show ?case by simp
next
  case (Cons x s)
  show ?case
  proof (cases "x = c")
    case True
    with Cons show ?thesis by auto
  next
    case False
    have ne: "pieces c s \<noteq> []" by (rule pieces_nonempty)
    from Cons.prems False have "p = x # hd (pieces c s) \<or> p \<in> set (tl (pieces c s))"
      by (simp add: Let_def)
    then show ?thesis
    proof
      assume "p = x # hd (pieces c s)"
      moreover have "c \<notin> set (hd (pieces c s))" using Cons.IH ne by simp
      ultimately show ?thesis using False by auto
    next
      assume "p \<in> set (tl (pieces c s))"
      then have "p \<in> set (pieces c s)" using ne by (auto dest: list.set_sel(2))
      then show ?thesis by (rule Cons.IH)
    qed
  qed
qed

text \<open>
  Joining puts a comma between the elements, so the pieces of the joined string are the
  pieces of the elements; when no element contains a comma they are the elements.
\<close>

lemma pieces_join:
  "xs \<noteq> [] \<Longrightarrow> pieces CHR '','' (join xs) = concat (map (pieces CHR '','') xs)"
  by (induction xs rule: join.induct) (auto simp: pieces_append_sep)

lemma pieces_join_comma_free:
  "xs \<noteq> [] \<Longrightarrow> \<forall>x \<in> set xs. CHR '','' \<notin> set x \<Longrightarrow> pieces CHR '','' (join xs) = xs"
  by (induction xs rule: join.induct) (auto simp: pieces_append_sep pieces_no_sep)

lemma join_contains: "r \<in> set rs \<Longrightarrow> set r \<subseteq> set (join rs)"
  by (induction rs rule: join.induct) auto

lemma baseToString_strs: "map baseToString (map Str rs) = rs"
  by (induction rs) auto

lemma comma_split_join_comma_free:
  assumes "rhss \<noteq> []" "length rhss \<le> MAX_ARRAY_LENGTH" "\<forall>rhs \<in> set rhss. CHR '','' \<notin> set rhs"
  shows "comma_split (comma_join rhss) = rhss"
  using assms by (simp add: comma_split_def comma_join_def String_split_def pieces_join_comma_free)

section \<open>The grammar renderer\<close>

text \<open>
  Each state of a grammar result gets one section, whose lines are made from the split of
  the join of its right-hand sides: the array \<open>[val]\<close> converts to the same string as
  \<open>val\<close> itself.
\<close>

lemma renderGrammar_sections:
  "renderGrammar (grammar_object g) =
     map (\<lambda>(lhs, rhss). Div ''grammar-section''
            (map (\<lambda>rule. P (lhs @ '' -> '' @ rule)) (comma_split (comma_join rhss)))) g"
  by (simp add: renderGrammar_def grammar_object_def split_lodash_def clone_def
      baseToString_strs comma_split_def comma_join_def case_prod_unfold o_def)

lemma texts_P: "concat (map texts (map (\<lambda>rule. P (f rule)) rs)) = map f rs"
  by (induction rs) auto

text \<open>
  Claim C1, for the grammar results where it holds. When every state has at least one
  right-hand side and no right-hand side contains a comma, \<open>renderGrammar\<close> makes one
  section for each state, in the order of the states, with one line \<open>LHS -> RHS\<close> for each
  right-hand side, in the order of the rules; so the display lines are the rule lines.
\<close>

theorem renderGrammar_one_line_per_rule:
  assumes "comma_free g"
  shows "renderGrammar (grammar_object g) =
           map (\<lambda>(lhs, rhss). Div ''grammar-section''
                  (map (\<lambda>rhs. P (lhs @ '' -> '' @ rhs)) rhss)) g
         \<and> rendered_lines (renderGrammar (grammar_object g)) = rule_lines g"
proof -
  have split_back: "comma_split (comma_join rhss) = rhss" if "(lhs, rhss) \<in> set g" for lhs rhss
    using assms that
    by (intro comma_split_join_comma_free) (auto simp: comma_free_def list_all_iff)
  have sections: "renderGrammar (grammar_object g) =
           map (\<lambda>(lhs, rhss). Div ''grammar-section''
                  (map (\<lambda>rhs. P (lhs @ '' -> '' @ rhs)) rhss)) g"
    unfolding renderGrammar_sections using split_back by auto
  have "rendered_lines (renderGrammar (grammar_object g)) = rule_lines g"
    unfolding sections rendered_lines_def rule_lines_def
    by (simp add: o_def case_prod_unfold texts_P)
  with sections show ?thesis by simp
qed

text \<open>
  The example of the specification: \<open>{"q0": ["a","aq1"], "q1": ["b"]}\<close> renders
  \<open>q0 -> a\<close>, \<open>q0 -> aq1\<close>, \<open>q1 -> b\<close>, in that order.
\<close>

theorem renderGrammar_one_line_per_rule_witness:
  "comma_free [(''q0'', [''a'', ''aq1'']), (''q1'', [''b''])] \<and>
   rendered_lines (renderGrammar (grammar_object [(''q0'', [''a'', ''aq1'']), (''q1'', [''b''])])) =
     [''q0 -> a'', ''q0 -> aq1'', ''q1 -> b'']"
proof -
  have h: "comma_free [(''q0'', [''a'', ''aq1'']), (''q1'', [''b''])]"
    by (simp add: comma_free_def MAX_ARRAY_LENGTH_def)
  have "rendered_lines (renderGrammar (grammar_object [(''q0'', [''a'', ''aq1'']), (''q1'', [''b''])])) =
      rule_lines [(''q0'', [''a'', ''aq1'']), (''q1'', [''b''])]"
    using renderGrammar_one_line_per_rule [OF h] by (rule conjunct2)
  then show ?thesis
    using h by (simp add: rule_lines_def)
qed

text \<open>
  Without the two conditions the lines are not one for each right-hand side: the
  right-hand side \<open>a,b\<close> gives two lines, and a state without right-hand sides gives a
  line.
\<close>

theorem renderGrammar_one_line_per_rule_counterexample:
  "rendered_lines (renderGrammar (grammar_object [(''q0'', [''a,b''])])) =
     [''q0 -> a'', ''q0 -> b''] \<and>
   rendered_lines (renderGrammar (grammar_object [(''q0'', [''a,b''])])) \<noteq>
     rule_lines [(''q0'', [''a,b''])] \<and>
   rendered_lines (renderGrammar (grammar_object [(''q0'', [])])) \<noteq>
     rule_lines [(''q0'', [])]"
  by (simp add: rendered_lines_def renderGrammar_def grammar_object_def split_lodash_def
      String_split_def MAX_ARRAY_LENGTH_def clone_def rule_lines_def)

text \<open>
  Claim C6, as the code has it. A state that maps to the empty list of right-hand sides
  is not skipped: the empty array converts to the empty string, whose split is one empty
  piece, and the section of that state has the single line \<open>LHS -> \<close> with nothing after
  the arrow.
\<close>

theorem renderGrammar_empty_rules:
  assumes "i < length g" "g ! i = (lhs, [])"
  shows "renderGrammar (grammar_object g) ! i = Div ''grammar-section'' [P (lhs @ '' -> '')]
         \<and> texts (renderGrammar (grammar_object g) ! i) = [lhs @ '' -> '']"
  using assms
  by (simp add: renderGrammar_sections comma_split_def comma_join_def String_split_def
      MAX_ARRAY_LENGTH_def)

text \<open>In \<open>{"q0": ["a"], "q1": []}\<close> the second state has no right-hand side.\<close>

theorem renderGrammar_empty_rules_witness:
  "(1::nat) < length [(''q0'', [''a'']), (''q1'', [])] \<and>
   [(''q0'', [''a'']), (''q1'', [])] ! 1 = (''q1'', []) \<and>
   renderGrammar (grammar_object [(''q0'', [''a'']), (''q1'', [])]) ! 1 =
     Div ''grammar-section'' [P ''q1 -> '']"
  using renderGrammar_empty_rules [of 1 "[(''q0'', [''a'']), (''q1'', [])]" "''q1''"]
  by simp

text \<open>The grammar result \<open>{"q0": ["a"], "q1": []}\<close> renders a line for \<open>q1\<close>.\<close>

theorem renderGrammar_empty_rules_counterexample:
  "texts (renderGrammar (grammar_object [(''q0'', [''a'']), (''q1'', [])]) ! 1) =
     [''q1 -> ''] \<and>
   texts (renderGrammar (grammar_object [(''q0'', [''a'']), (''q1'', [])]) ! 1) \<noteq> [] \<and>
   rendered_lines (renderGrammar (grammar_object [(''q0'', [''a'']), (''q1'', [])])) =
     [''q0 -> a'', ''q1 -> '']"
  by (simp add: rendered_lines_def renderGrammar_def grammar_object_def split_lodash_def
      String_split_def MAX_ARRAY_LENGTH_def clone_def)

section \<open>The edit handlers and the request\<close>

text \<open>
  Claim C4, as the code has it. Editing the transition map of \<open>UiContainer\<close> stores the
  text as it is, whatever it is, and leaves the graph input alone; the text is parsed when
  Visualize is pressed, and only then does malformed text show, as the \<open>SyntaxError\<close> of
  \<open>JSON.parse\<close>: Visualize fails exactly when the stored text does not parse. In
  \<open>NfaToRegularGrammar\<close> the editor hands the handler a value that is parsed already; the
  handler stores it as it is, and Convert parses nothing: it posts the stored value
  unchanged to both endpoints and alerts nothing.
\<close>

theorem transition_map_parsed_by_visualize_not_convert:
  "transitionMap (ui_handleTransitionMapChange target_value st) = target_value \<and>
   graphInput (ui_handleTransitionMapChange target_value st) = graphInput st \<and>
   ui_visualize JSON_parse (ui_handleTransitionMapChange target_value st) =
     (case JSON_parse target_value of
        None \<Rightarrow> Inl SyntaxError
      | Some parsed \<Rightarrow>
          Inr ((ui_handleTransitionMapChange target_value st)\<lparr>graphInput := Some \<lparr>
            alphabet = alphabet st, states = states st, initial = first (initial st),
            finals = finals st, transitionMap = parsed\<rparr>\<rparr>)) \<and>
   (ui_visualize JSON_parse st = Inl SyntaxError) = (JSON_parse (transitionMap st) = None) \<and>
   transitionMap (nfa_handleTransitionMapChange parsedMap (state w)) = parsedMap \<and>
   posts (convertToRegularGrammar
       (w\<lparr>state := nfa_handleTransitionMapChange parsedMap (state w)\<rparr>)) =
     posts w @
       [(nfaToDfaApi, (nfa_generateRequestBody (state w))\<lparr>transitionMap := parsedMap\<rparr>),
        (nfaToGrammarApi, (nfa_generateRequestBody (state w))\<lparr>transitionMap := parsedMap\<rparr>)] \<and>
   alerts (convertToRegularGrammar
       (w\<lparr>state := nfa_handleTransitionMapChange parsedMap (state w)\<rparr>)) = alerts w \<and>
   mounted (convertToRegularGrammar
       (w\<lparr>state := nfa_handleTransitionMapChange parsedMap (state w)\<rparr>)) = mounted w"
  by (simp add: ui_handleTransitionMapChange_def ui_visualize_def ui_generateGraphInput_def
      nfa_handleTransitionMapChange_def convertToRegularGrammar_def nfa_generateRequestBody_def
      Let_def clone_def split: option.split)

text \<open>
  The editor has handed over the string \<open>{\<close>, which is not the text of a JSON value.
  Convert posts it as it is and reports nothing: the value is not parsed there.
\<close>

theorem convert_parses_nothing_counterexample:
  "posts (convertToRegularGrammar
      \<lparr>state = nfa_handleTransitionMapChange (Str ''{'') nfa_constructor,
        alerts = [], posts = [], mounted = True\<rparr>) =
     [(nfaToDfaApi, \<lparr>alphabet = [''a'', ''b''], states = [''Q'', ''W'', ''E''],
         initial = Some ''Q'', finals = [''W''], transitionMap = Str ''{''\<rparr>),
      (nfaToGrammarApi, \<lparr>alphabet = [''a'', ''b''], states = [''Q'', ''W'', ''E''],
         initial = Some ''Q'', finals = [''W''], transitionMap = Str ''{''\<rparr>)] \<and>
   alerts (convertToRegularGrammar
      \<lparr>state = nfa_handleTransitionMapChange (Str ''{'') nfa_constructor,
        alerts = [], posts = [], mounted = True\<rparr>) = []"
  by (simp add: convertToRegularGrammar_def Let_def nfa_generateRequestBody_def
      nfa_handleTransitionMapChange_def nfa_constructor_def clone_def)

text \<open>
  Claim C5, as the code has it. The request body carries the alphabet, the states, the
  final states and the transition map of the state as they are, and its \<open>initial\<close> is a
  single value, never an array: the first element of the edited list of initial states
  when there is one, and \<open>undefined\<close> when the list is empty.
\<close>

theorem request_body_fields:
  "alphabet (nfa_generateRequestBody st) = alphabet st \<and>
   states (nfa_generateRequestBody st) = states st \<and>
   initial (nfa_generateRequestBody st) = (case initial st of [] \<Rightarrow> None | q # qs \<Rightarrow> Some q) \<and>
   finals (nfa_generateRequestBody st) = finals st \<and>
   transitionMap (nfa_generateRequestBody st) = transitionMap st"
  by (cases "initial st") (simp_all add: nfa_generateRequestBody_def clone_def)

text \<open>
  With every tag of the initial state removed, the \<open>initial\<close> of the request is
  \<open>undefined\<close>, not a state.
\<close>

theorem request_body_initial_counterexample:
  "initial (nfa_generateRequestBody (nfa_constructor\<lparr>initial := []\<rparr>)) = None"
  by (simp add: nfa_generateRequestBody_def nfa_constructor_def clone_def)

section \<open>The two requests of a conversion\<close>



text \<open>
  A response of the grammar request without \<open>result\<close>: \<open>render\<close> throws inside the
  \<open>then\<close> callback, the component is unmounted, and the \<open>catch\<close> of the same request
  alerts.
\<close>

lemma grammar_response_without_result:
  "mounted w \<Longrightarrow>
   complete (GrammarResolved \<lparr>data = \<lparr>result = Undefined\<rparr>\<rparr>) w =
     w\<lparr>state := (state w)\<lparr>resultingGrammar := Undefined, loading := False\<rparr>,
       mounted := False,
       alerts := alerts w @
         [''Error while fetchin data!TypeError: Cannot convert undefined or null to object'']\<rparr>"
  by (simp add: nfaToGrammar_then_def setState_def render_def isResultPresent_def
      nfaToGrammar_catch_def alert_def)



text \<open>
  Claim C3 on the code. The callbacks of a failed request alert and leave the state of the
  component as it is: the results shown before stay, and so does \<open>loading\<close>, which
  \<open>_convertToRegularGrammar\<close> has set and which only the callbacks of a successful
  request clear. From the state of the constructor, when Convert is pressed and the DFA
  request fails, and also when both requests fail, the component is still submitting.
\<close>

theorem failed_conversion_keeps_loading:
  "phase (state (convertToRegularGrammar
      \<lparr>state = nfa_constructor, alerts = [], posts = [], mounted = True\<rparr>)) = Submitting \<and>
   phase (state (complete (DfaRejected ''Error: Network Error'')
      (convertToRegularGrammar
        \<lparr>state = nfa_constructor, alerts = [], posts = [], mounted = True\<rparr>))) = Submitting \<and>
   phase (state (completions
      [DfaRejected ''Error: Network Error'', GrammarRejected ''Error: Network Error'']
      (convertToRegularGrammar
        \<lparr>state = nfa_constructor, alerts = [], posts = [], mounted = True\<rparr>))) = Submitting \<and>
   alerts (completions
      [DfaRejected ''Error: Network Error'', GrammarRejected ''Error: Network Error'']
      (convertToRegularGrammar
        \<lparr>state = nfa_constructor, alerts = [], posts = [], mounted = True\<rparr>)) =
     [''Error while fetchin data!Error: Network Error'',
      ''Error while fetchin data!Error: Network Error''] \<and>
   state (complete (DfaRejected e) w) = state w \<and>
   state (complete (GrammarRejected e) w) = state w \<and>
   alerts (complete (DfaRejected e) w) = alerts w @ [''Error while fetchin data!'' @ e] \<and>
   alerts (complete (GrammarRejected e) w) = alerts w @ [''Error while fetchin data!'' @ e]"
  by (simp add: phase_def convertToRegularGrammar_def nfaToDfa_catch_def
      nfaToGrammar_catch_def alert_def nfa_constructor_def Let_def)

section \<open>Validation and the graph projection\<close>

text \<open>
  Claim C7, as the code has it. Nothing checks the initial state against the states.
  Convert posts the request body to both endpoints and alerts nothing, whatever the state
  of the component is; Visualize fails only when \<open>JSON.parse\<close> throws on the text of the
  transition map, and whether it fails does not depend on the states, the initial state
  or the final states.
\<close>

theorem convert_posts_without_validation:
  "posts (convertToRegularGrammar w) =
     posts w @ [(nfaToDfaApi, nfa_generateRequestBody (state w)),
                (nfaToGrammarApi, nfa_generateRequestBody (state w))] \<and>
   alerts (convertToRegularGrammar w) = alerts w \<and>
   isl (ui_visualize JSON_parse (ust\<lparr>states := states', initial := initial', finals := finals'\<rparr>)) =
     isl (ui_visualize JSON_parse ust) \<and>
   isl (ui_visualize JSON_parse ust) = (JSON_parse (transitionMap ust) = None)"
  by (simp add: convertToRegularGrammar_def Let_def ui_visualize_def ui_generateGraphInput_def
      split: option.split)

text \<open>
  With the initial state \<open>X\<close>, which is not among the states \<open>Q\<close>, \<open>W\<close>, \<open>E\<close>, Convert
  posts both requests with \<open>initial = X\<close> and reports no error.
\<close>

theorem missing_initial_not_rejected_counterexample:
  "''X'' \<notin> set (states (nfa_constructor\<lparr>initial := [''X'']\<rparr>)) \<and>
   posts (convertToRegularGrammar
      \<lparr>state = nfa_constructor\<lparr>initial := [''X'']\<rparr>, alerts = [], posts = [], mounted = True\<rparr>) =
     [(nfaToDfaApi, \<lparr>alphabet = [''a'', ''b''], states = [''Q'', ''W'', ''E''],
         initial = Some ''X'', finals = [''W''], transitionMap = Obj []\<rparr>),
      (nfaToGrammarApi, \<lparr>alphabet = [''a'', ''b''], states = [''Q'', ''W'', ''E''],
         initial = Some ''X'', finals = [''W''], transitionMap = Obj []\<rparr>)] \<and>
   alerts (convertToRegularGrammar
      \<lparr>state = nfa_constructor\<lparr>initial := [''X'']\<rparr>, alerts = [], posts = [], mounted = True\<rparr>) = []"
  by (simp add: convertToRegularGrammar_def Let_def nfa_generateRequestBody_def
      nfa_constructor_def clone_def)

text \<open>Merging keeps the pairs of origin and destination of the edges.\<close>

lemma merge_edge_endpoints:
  "endpoints ` set (merge_edge e xs) = insert (endpoints e) (endpoints ` set xs)"
  by (induction xs) (auto simp: endpoints_def)

lemma foldl_merge_edge_endpoints:
  "endpoints ` set (foldl (\<lambda>merged e. merge_edge e merged) acc es) =
     endpoints ` set acc \<union> endpoints ` set es"
proof (induction es arbitrary: acc)
  case Nil
  then show ?case by simp
next
  case (Cons e es)
  show ?case
    unfolding foldl_Cons Cons.IH merge_edge_endpoints by auto
qed

lemma merge_edges_endpoints: "endpoints ` set (merge_edges es) = endpoints ` set es"
  by (simp add: merge_edges_def foldl_merge_edge_endpoints)

lemma emit_edges_valid:
  assumes "valid spec" "e \<in> set (emit_edges (transitionMap spec))"
  shows "edge_from e \<in> set (states spec) \<and> edge_to e \<in> set (states spec)"
  using assms by (fastforce simp: valid_def emit_edges_def list_all_iff)

text \<open>
  Claim C8. For every valid AutomatonSpec the projection has exactly one node for each
  state (the node ids are the states, in order and without repetition), a node is styled
  initial exactly when it is the initial state and final exactly when it is among the
  final states, and every edge goes from a node of the projection to a node of the
  projection, both of them states of the specification.
\<close>

theorem project_nodes_and_references:
  assumes "valid spec"
  shows "map node_id (nodes (project spec)) = states spec \<and>
         distinct (map node_id (nodes (project spec))) \<and>
         (\<forall>n \<in> set (nodes (project spec)).
            (StyleInitial \<in> set (styleHint n)) = (node_id n = initial spec) \<and>
            (StyleFinal \<in> set (styleHint n)) = (node_id n \<in> set (finals spec))) \<and>
         (\<forall>e \<in> set (edges (project spec)).
            edge_from e \<in> set (map node_id (nodes (project spec))) \<and>
            edge_to e \<in> set (map node_id (nodes (project spec))) \<and>
            edge_from e \<in> set (states spec) \<and>
            edge_to e \<in> set (states spec))"
proof -
  have ids: "map node_id (nodes (project spec)) = states spec"
    by (simp add: project_def project_nodes_def o_def)
  have dist: "distinct (map node_id (nodes (project spec)))"
    using assms unfolding ids by (simp add: valid_def)
  have styles: "\<forall>n \<in> set (nodes (project spec)).
      (StyleInitial \<in> set (styleHint n)) = (node_id n = initial spec) \<and>
      (StyleFinal \<in> set (styleHint n)) = (node_id n \<in> set (finals spec))"
    by (auto simp: project_def project_nodes_def)
  have refs: "edge_from e \<in> set (states spec) \<and> edge_to e \<in> set (states spec)"
    if "e \<in> set (edges (project spec))" for e
  proof -
    from that have "endpoints e \<in> endpoints ` set (merge_edges (emit_edges (transitionMap spec)))"
      by (simp add: project_def)
    then obtain e' where e': "e' \<in> set (emit_edges (transitionMap spec))"
      and eq: "endpoints e = endpoints e'"
      unfolding merge_edges_endpoints by blast
    from emit_edges_valid [OF assms e'] eq show ?thesis
      by (simp add: endpoints_def)
  qed
  from ids dist styles refs show ?thesis by simp
qed

text \<open>The example of the specification, with the states \<open>Q\<close> and \<open>W\<close>.\<close>

theorem project_nodes_and_references_witness:
  "valid \<lparr>alphabet = [''a'', ''b''], states = [''Q'', ''W''], initial = ''Q'',
     finals = [''W''],
     transitionMap = [(''Q'', [(''a'', [''W''])]), (''W'', [(''b'', [''Q''])])]\<rparr> \<and>
   map node_id (nodes (project \<lparr>alphabet = [''a'', ''b''], states = [''Q'', ''W''], initial = ''Q'',
     finals = [''W''],
     transitionMap = [(''Q'', [(''a'', [''W''])]), (''W'', [(''b'', [''Q''])])]\<rparr>)) = [''Q'', ''W''] \<and>
   edges (project \<lparr>alphabet = [''a'', ''b''], states = [''Q'', ''W''], initial = ''Q'',
     finals = [''W''],
     transitionMap = [(''Q'', [(''a'', [''W''])]), (''W'', [(''b'', [''Q''])])]\<rparr>) =
     [\<lparr>edge_from = ''Q'', edge_to = ''W'', edge_label = ''a''\<rparr>,
      \<lparr>edge_from = ''W'', edge_to = ''Q'', edge_label = ''b''\<rparr>]"
proof -
  have h: "valid \<lparr>alphabet = [''a'', ''b''], states = [''Q'', ''W''], initial = ''Q'',
     finals = [''W''],
     transitionMap = [(''Q'', [(''a'', [''W''])]), (''W'', [(''b'', [''Q''])])]\<rparr>"
    by (simp add: valid_def)
  have e: "edges (project \<lparr>alphabet = [''a'', ''b''], states = [''Q'', ''W''], initial = ''Q'',
     finals = [''W''],
     transitionMap = [(''Q'', [(''a'', [''W''])]), (''W'', [(''b'', [''Q''])])]\<rparr>) =
     [\<lparr>edge_from = ''Q'', edge_to = ''W'', edge_label = ''a''\<rparr>,
      \<lparr>edge_from = ''W'', edge_to = ''Q'', edge_label = ''b''\<rparr>]"
    by (simp add: project_def merge_edges_def emit_edges_def)
  from project_nodes_and_references [OF h] have
    "map node_id (nodes (project \<lparr>alphabet = [''a'', ''b''], states = [''Q'', ''W''], initial = ''Q'',
     finals = [''W''],
     transitionMap = [(''Q'', [(''a'', [''W''])]), (''W'', [(''b'', [''Q''])])]\<rparr>)) = [''Q'', ''W'']"
    by simp
  with h e show ?thesis by simp
qed

section \<open>Frame of the edit handlers and the split of the join\<close>

text \<open>
  Claim C9. Each of the five edit handlers of \<open>NfaToRegularGrammar\<close> and of
  \<open>UiContainer\<close> sets its own field to the value it is given and leaves every other field
  of the state as it was, the results, \<open>graphInput\<close> and \<open>loading\<close> among them.
\<close>

theorem edit_handlers_frame:
  "(let st' = nfa_handleAlphabetChange tags st in
      alphabet st' = tags \<and>
      (states st', initial st', finals st', transitionMap st', graphInput st', isModalOpen st', resultingAlphabet st', resultingStates st', resultingInitial st', resultingFinals st', resultingTransitionMap st', resultingGrammar st', loading st') =
      (states st, initial st, finals st, transitionMap st, graphInput st, isModalOpen st, resultingAlphabet st, resultingStates st, resultingInitial st, resultingFinals st, resultingTransitionMap st, resultingGrammar st, loading st))
   \<and> (let st' = nfa_handleStatesChange tags st in
      states st' = tags \<and>
      (alphabet st', initial st', finals st', transitionMap st', graphInput st', isModalOpen st', resultingAlphabet st', resultingStates st', resultingInitial st', resultingFinals st', resultingTransitionMap st', resultingGrammar st', loading st') =
      (alphabet st, initial st, finals st, transitionMap st, graphInput st, isModalOpen st, resultingAlphabet st, resultingStates st, resultingInitial st, resultingFinals st, resultingTransitionMap st, resultingGrammar st, loading st))
   \<and> (let st' = nfa_handleInitialChange tags st in
      initial st' = tags \<and>
      (alphabet st', states st', finals st', transitionMap st', graphInput st', isModalOpen st', resultingAlphabet st', resultingStates st', resultingInitial st', resultingFinals st', resultingTransitionMap st', resultingGrammar st', loading st') =
      (alphabet st, states st, finals st, transitionMap st, graphInput st, isModalOpen st, resultingAlphabet st, resultingStates st, resultingInitial st, resultingFinals st, resultingTransitionMap st, resultingGrammar st, loading st))
   \<and> (let st' = nfa_handleFinalsChange tags st in
      finals st' = tags \<and>
      (alphabet st', states st', initial st', transitionMap st', graphInput st', isModalOpen st', resultingAlphabet st', resultingStates st', resultingInitial st', resultingFinals st', resultingTransitionMap st', resultingGrammar st', loading st') =
      (alphabet st, states st, initial st, transitionMap st, graphInput st, isModalOpen st, resultingAlphabet st, resultingStates st, resultingInitial st, resultingFinals st, resultingTransitionMap st, resultingGrammar st, loading st))
   \<and> (let st' = nfa_handleTransitionMapChange parsedMap st in
      transitionMap st' = parsedMap \<and>
      (alphabet st', states st', initial st', finals st', graphInput st', isModalOpen st', resultingAlphabet st', resultingStates st', resultingInitial st', resultingFinals st', resultingTransitionMap st', resultingGrammar st', loading st') =
      (alphabet st, states st, initial st, finals st, graphInput st, isModalOpen st, resultingAlphabet st, resultingStates st, resultingInitial st, resultingFinals st, resultingTransitionMap st, resultingGrammar st, loading st))
   \<and> (let st' = ui_handleAlphabetChange utags ust in
      alphabet st' = utags \<and>
      (states st', initial st', finals st', transitionMap st', graphInput st') =
      (states ust, initial ust, finals ust, transitionMap ust, graphInput ust))
   \<and> (let st' = ui_handleStatesChange utags ust in
      states st' = utags \<and>
      (alphabet st', initial st', finals st', transitionMap st', graphInput st') =
      (alphabet ust, initial ust, finals ust, transitionMap ust, graphInput ust))
   \<and> (let st' = ui_handleInitialChange utags ust in
      initial st' = utags \<and>
      (alphabet st', states st', finals st', transitionMap st', graphInput st') =
      (alphabet ust, states ust, finals ust, transitionMap ust, graphInput ust))
   \<and> (let st' = ui_handleFinalsChange utags ust in
      finals st' = utags \<and>
      (alphabet st', states st', initial st', transitionMap st', graphInput st') =
      (alphabet ust, states ust, initial ust, transitionMap ust, graphInput ust))
   \<and> (let st' = ui_handleTransitionMapChange target_value ust in
      transitionMap st' = target_value \<and>
      (alphabet st', states st', initial st', finals st', graphInput st') =
      (alphabet ust, states ust, initial ust, finals ust, graphInput ust))"
  by (simp add: Let_def
      nfa_handleAlphabetChange_def nfa_handleStatesChange_def nfa_handleInitialChange_def
      nfa_handleFinalsChange_def nfa_handleTransitionMapChange_def
      ui_handleAlphabetChange_def ui_handleStatesChange_def ui_handleInitialChange_def
      ui_handleFinalsChange_def ui_handleTransitionMapChange_def)

text \<open>
  Claim C10. The section of every state holds one line for each piece of the comma-split
  of the comma-join of its right-hand sides; every right-hand side contributes its own
  pieces, in order; and a right-hand side with a comma in it gives at least two pieces,
  so the section has several lines and none of them is the line of that right-hand side
  as a whole.
\<close>

theorem renderGrammar_split_of_join:
  "renderGrammar (grammar_object g) =
     map (\<lambda>(lhs, rhss). Div ''grammar-section''
            (map (\<lambda>rule. P (lhs @ '' -> '' @ rule)) (comma_split (comma_join rhss)))) g
   \<and> (rhss \<noteq> [] \<longrightarrow>
        comma_split (comma_join rhss) =
          take MAX_ARRAY_LENGTH (concat (map (pieces CHR '','') rhss)))
   \<and> (rhs \<in> set rhss \<and> CHR '','' \<in> set rhs \<longrightarrow>
        2 \<le> length (pieces CHR '','' rhs) \<and>
        2 \<le> length (comma_split (comma_join rhss)) \<and>
        P (lhs @ '' -> '' @ rhs) \<notin>
          set (map (\<lambda>rule. P (lhs @ '' -> '' @ rule)) (comma_split (comma_join rhss))))"
proof (intro conjI impI)
  show "renderGrammar (grammar_object g) =
     map (\<lambda>(lhs, rhss). Div ''grammar-section''
            (map (\<lambda>rule. P (lhs @ '' -> '' @ rule)) (comma_split (comma_join rhss)))) g"
    by (rule renderGrammar_sections)
next
  assume "rhss \<noteq> []"
  then show "comma_split (comma_join rhss) =
      take MAX_ARRAY_LENGTH (concat (map (pieces CHR '','') rhss))"
    by (simp add: comma_split_def comma_join_def String_split_def pieces_join)
next
  assume a: "rhs \<in> set rhss \<and> CHR '','' \<in> set rhs"
  then show "2 \<le> length (pieces CHR '','' rhs)"
    by (simp add: pieces_sep_length)
  from a have "CHR '','' \<in> set (join rhss)"
    using join_contains by blast
  then have "2 \<le> length (pieces CHR '','' (join rhss))"
    by (rule pieces_sep_length)
  then show "2 \<le> length (comma_split (comma_join rhss))"
    by (simp add: comma_split_def comma_join_def String_split_def MAX_ARRAY_LENGTH_def)
  have "rhs \<notin> set (comma_split (comma_join rhss))"
  proof
    assume "rhs \<in> set (comma_split (comma_join rhss))"
    then have "rhs \<in> set (pieces CHR '','' (join rhss))"
      unfolding comma_split_def comma_join_def String_split_def by (rule in_set_takeD)
    then have "CHR '','' \<notin> set rhs" by (rule pieces_free)
    with a show False by simp
  qed
  then show "P (lhs @ '' -> '' @ rhs) \<notin>
      set (map (\<lambda>rule. P (lhs @ '' -> '' @ rule)) (comma_split (comma_join rhss)))"
    by auto
qed

theorem renderGrammar_split_of_join_witness:
  "''a,b'' \<in> set [''a,b'', ''c''] \<and> CHR '','' \<in> set ''a,b'' \<and>
   renderGrammar (grammar_object [(''q0'', [''a,b'', ''c''])]) =
     [Div ''grammar-section'' [P ''q0 -> a'', P ''q0 -> b'', P ''q0 -> c'']] \<and>
   comma_split (comma_join [''a,b'', ''c'']) = [''a'', ''b'', ''c'']"
  using renderGrammar_split_of_join
    [of "[(''q0'', [''a,b'', ''c''])]" "[''a,b'', ''c'']" "''a,b''" "''q0''"]
  by (simp add: MAX_ARRAY_LENGTH_def)

end
